theory Spec2Isabelle
  imports Main "HOL-Library.AList"
begin

section \<open>Python values used by \<open>scripts/download_english_models.py\<close>\<close>

text \<open>
  Python strings are modelled as \<open>string\<close> (the byte sequence of their UTF-8 form).
  The exceptions are the subclasses of \<open>Exception\<close> that the script and the library
  calls it makes can raise; asynchronous \<open>BaseException\<close>s (KeyboardInterrupt,
  SystemExit) are outside the model. A Python function returns \<open>exn + 'a\<close> together
  with the new world: \<open>Inl e\<close> is an exception leaving the function.
\<close>

datatype exn =
    AttributeError
  | ValueError
  | ZeroDivisionError
  | FileNotFoundError
  | FileExistsError
  | NotADirectoryError
  | IsADirectoryError
  | PermissionError
  | OSError
  | SameFileError
  | URLError
  | HTTPError
  | ContentTooShortError
  | CalledProcessError
  | ReadError

text \<open>The subclasses of \<open>OSError\<close> (\<open>except OSError\<close> in \<open>pathlib\<close> catches these).\<close>

fun is_OSError :: "exn \<Rightarrow> bool" where
  "is_OSError AttributeError = False"
| "is_OSError ValueError = False"
| "is_OSError ZeroDivisionError = False"
| "is_OSError CalledProcessError = False"
| "is_OSError ReadError = False"
| "is_OSError _ = True"

subsection \<open>String methods\<close>

definition endswith :: "string \<Rightarrow> string \<Rightarrow> bool" where
  "endswith s suf \<longleftrightarrow>
     length suf \<le> length s \<and> drop (length s - length suf) s = suf"

text \<open>\<open>s.split(c)\<close>: never the empty list.\<close>

fun split :: "char \<Rightarrow> string \<Rightarrow> string list" where
  "split c [] = [[]]"
| "split c (x # xs) =
     (if x = c then [] # split c xs
      else (case split c xs of
              [] \<Rightarrow> [[x]]
            | y # ys \<Rightarrow> (x # y) # ys))"

definition upper_char :: "char \<Rightarrow> char" where
  "upper_char c =
     (case map_of (zip ''abcdefghijklmnopqrstuvwxyz'' ''ABCDEFGHIJKLMNOPQRSTUVWXYZ'') c of
        Some u \<Rightarrow> u | None \<Rightarrow> c)"

definition lower_char :: "char \<Rightarrow> char" where
  "lower_char c =
     (case map_of (zip ''ABCDEFGHIJKLMNOPQRSTUVWXYZ'' ''abcdefghijklmnopqrstuvwxyz'') c of
        Some l \<Rightarrow> l | None \<Rightarrow> c)"

text \<open>\<open>str.upper\<close> and \<open>str.capitalize\<close> on ASCII letters (the script applies them to
  catalog keys only).\<close>

definition upper :: "string \<Rightarrow> string" where
  "upper s = map upper_char s"

definition capitalize :: "string \<Rightarrow> string" where
  "capitalize s = (case s of [] \<Rightarrow> [] | c # cs \<Rightarrow> upper_char c # map lower_char cs)"

subsection \<open>\<open>pathlib.Path\<close>\<close>

text \<open>
  A \<open>PosixPath\<close> is its anchor (empty for a relative path, \<open>/\<close>, or \<open>//\<close> when the
  string begins with exactly two slashes) and its parts. Parsing a string drops empty
  and \<open>.\<close> components and keeps \<open>..\<close>, as \<open>pathlib\<close> does.
\<close>

record pypath =
  anchor :: string
  parts :: "string list"

abbreviation is_abs :: "pypath \<Rightarrow> bool" where
  "is_abs p \<equiv> anchor p \<noteq> []"

definition Path :: "string \<Rightarrow> pypath" where
  "Path s = \<lparr> anchor = (if take 2 s = ''//'' \<and> take 3 s \<noteq> ''///'' then ''//''
                        else if take 1 s = ''/'' then ''/'' else []),
              parts = filter (\<lambda>p. p \<noteq> [] \<and> p \<noteq> ''.'') (split CHR ''/'' s) \<rparr>"

text \<open>\<open>p / s\<close>: an absolute right operand replaces the left one.\<close>

definition joinpath :: "pypath \<Rightarrow> string \<Rightarrow> pypath" where
  "joinpath p s =
     (if is_abs (Path s) then Path s
      else \<lparr> anchor = anchor p, parts = parts p @ parts (Path s) \<rparr>)"

fun join_parts :: "string list \<Rightarrow> string" where
  "join_parts [] = []"
| "join_parts [x] = x"
| "join_parts (x # y # ys) = x @ ''/'' @ join_parts (y # ys)"

definition path_str :: "pypath \<Rightarrow> string" where
  "path_str p =
     (if is_abs p then anchor p @ join_parts (parts p)
      else if parts p = [] then ''.'' else join_parts (parts p))"

definition path_parent :: "pypath \<Rightarrow> pypath" where
  "path_parent p = p \<lparr> parts := butlast (parts p) \<rparr>"

text \<open>\<open>p.name\<close>: the last part, the empty string when there is none.\<close>

definition path_name :: "pypath \<Rightarrow> string" where
  "path_name p = (if parts p = [] then [] else last (parts p))"

text \<open>
  A value that is either a \<open>str\<close> or a \<open>Path\<close>: the script passes both kinds to its
  helpers, and only \<open>str\<close> has the method \<open>endswith\<close>.
\<close>

datatype pyval = PStr string | PPath pypath

fun py_str :: "pyval \<Rightarrow> string" where
  "py_str (PStr s) = s"
| "py_str (PPath p) = path_str p"

fun fspath :: "pyval \<Rightarrow> pypath" where
  "fspath (PStr s) = Path s"
| "fspath (PPath p) = p"

fun py_endswith :: "pyval \<Rightarrow> string \<Rightarrow> exn + bool" where
  "py_endswith (PStr s) suf = Inr (endswith s suf)"
| "py_endswith (PPath p) suf = Inl AttributeError"

section \<open>The catalog and the metadata descriptor\<close>

record download_info =
  info_url :: string
  info_description :: string

text \<open>\<open>ESPNET_DOWNLOADS\<close>, a dict of dicts, as nested association lists.\<close>

definition ESPNET_DOWNLOADS :: "(string \<times> (string \<times> download_info) list) list" where
  "ESPNET_DOWNLOADS =
     [(''asr'',
        [(''english'',
          \<lparr> info_url = ''https://zenodo.org/record/3966501/files/asr_train_asr_transformer_e18_raw_bpe_sp_valid.acc.ave.zip'',
            info_description = ''LibriSpeech Transformer ASR model from ESPnet'' \<rparr>)]),
      (''tts'',
        [(''english'',
          \<lparr> info_url = ''https://zenodo.org/record/4034069/files/tts_train_xvector_tacotron2_raw_phn_tacotron_g2p_en_no_space_train.loss.ave.zip'',
            info_description = ''LJSpeech Tacotron2 TTS model from ESPnet'' \<rparr>)])]"

text \<open>\<open>ESPNET_DOWNLOADS.get(model_type, {}).get(language)\<close>\<close>

definition catalog_get :: "string \<Rightarrow> string \<Rightarrow> download_info option" where
  "catalog_get model_type language =
     (case map_of ESPNET_DOWNLOADS model_type of
        None \<Rightarrow> map_of [] language
      | Some d \<Rightarrow> map_of d language)"

record parameters =
  sampling_rate :: int
  features :: string
  model_architecture :: string

record config =
  cfg_model_type :: string
  cfg_language :: string
  cfg_description :: string
  cfg_placeholder :: bool
  cfg_version :: string
  cfg_created :: string
  cfg_source :: string
  cfg_parameters :: parameters

text \<open>The dict \<open>config\<close> built in \<open>setup_model\<close> (lines 98-111).\<close>

definition make_config :: "string \<Rightarrow> string \<Rightarrow> download_info \<Rightarrow> string \<Rightarrow> config" where
  "make_config model_type language download_info url =
     \<lparr> cfg_model_type = model_type,
       cfg_language = language,
       cfg_description = info_description download_info,
       cfg_placeholder = False,
       cfg_version = ''1.0.0'',
       cfg_created = ''2023-06-15'',
       cfg_source = url,
       cfg_parameters =
         \<lparr> sampling_rate = (if model_type = ''asr'' then 16000 else 22050),
           features = (if model_type = ''asr'' then ''fbank'' else ''mel''),
           model_architecture =
             (if model_type = ''asr'' then ''transformer'' else ''tacotron2'') \<rparr> \<rparr>"

section \<open>The world the script runs in\<close>

text \<open>
  The file system maps the canonical absolute location of an entry (the list of names
  from the root, which is \<open>[]\<close>) to a directory or a file; symbolic links and
  permissions are not part of it. A file holds raw bytes or the JSON text
  (\<open>json.dump\<close> with \<open>indent=2\<close>) of a descriptor. The world also records what was
  written to standard output and which URLs were requested from the network.
\<close>

datatype content = Raw string | ConfigJson config

datatype node = Dir | File content

type_synonym filesystem = "(string list \<times> node) list"

text \<open>
  An entry of standard output: a printed line, an error line \<open>f"...{e}"\<close> (the message
  text of the exception is not modelled), or a progress line, whose text is computed
  by floating-point division from the three arguments of the callback.
\<close>

datatype out = Line string | ErrorLine string exn | Progress int int int

record world =
  fs :: filesystem
  cwd :: "string list"
  stdout :: "out list"
  net_log :: "string list"

definition print :: "string \<Rightarrow> world \<Rightarrow> world" where
  "print s w = w \<lparr> stdout := stdout w @ [Line s] \<rparr>"

definition print_error :: "string \<Rightarrow> exn \<Rightarrow> world \<Rightarrow> world" where
  "print_error s e w = w \<lparr> stdout := stdout w @ [ErrorLine s e] \<rparr>"

text \<open>
  What the script does not control: the answer of the network to a request, the
  effect of the external \<open>unzip\<close> process and of \<open>tarfile\<close> on the file system, and
  failures of system calls for reasons outside the model of the file system
  (permissions, a full disk, a read-only mount, an over-long name).
  A response is the announced size (\<open>-1\<close> without a Content-Length header), the blocks
  that \<open>read\<close> returns, and the exception that ends the reading, if any.
\<close>

datatype syscall = SysMkdir | SysOpenWrite | SysOpenRead

datatype fetch_result = ConnFail exn | Response int "string list" "exn option"

record env =
  os_fault :: "syscall \<Rightarrow> pypath \<Rightarrow> filesystem \<Rightarrow> exn option"
  http :: "string \<Rightarrow> fetch_result"
  run_unzip :: "string \<Rightarrow> string \<Rightarrow> string list \<Rightarrow> filesystem \<Rightarrow> exn option \<times> filesystem"
  tar_extractall :: "string \<Rightarrow> string \<Rightarrow> string list \<Rightarrow> filesystem \<Rightarrow> exn option \<times> filesystem"

subsection \<open>Path resolution\<close>

text \<open>
  \<open>walk f cur names\<close> follows \<open>names\<close> from the directory \<open>cur\<close>, as the kernel does:
  every name is looked up in a directory, and \<open>..\<close> is the parent of the directory
  reached. The result is a directory.
\<close>

fun walk :: "filesystem \<Rightarrow> string list \<Rightarrow> string list \<Rightarrow> exn + string list" where
  "walk f cur [] =
     (case map_of f cur of
        Some Dir \<Rightarrow> Inr cur
      | Some (File c) \<Rightarrow> Inl NotADirectoryError
      | None \<Rightarrow> Inl FileNotFoundError)"
| "walk f cur (n # ns) =
     (case map_of f cur of
        Some Dir \<Rightarrow> walk f (if n = ''..'' then butlast cur else cur @ [n]) ns
      | Some (File c) \<Rightarrow> Inl NotADirectoryError
      | None \<Rightarrow> Inl FileNotFoundError)"

text \<open>
  The location that a path names: all parts but the last must lead through existing
  directories; the entry itself may be missing.
\<close>

definition locate :: "world \<Rightarrow> pypath \<Rightarrow> exn + string list" where
  "locate w p =
     (let start = (if is_abs p then [] else cwd w) in
      if parts p = [] then walk (fs w) start []
      else (case walk (fs w) start (butlast (parts p)) of
              Inl e \<Rightarrow> Inl e
            | Inr d \<Rightarrow> Inr (if last (parts p) = ''..'' then butlast d
                            else d @ [last (parts p)])))"

definition has_nul :: "pypath \<Rightarrow> bool" where
  "has_nul p \<longleftrightarrow> CHR 0x00 \<in> set (concat (parts p))"

text \<open>\<open>os.stat\<close> as \<open>Path.exists\<close> and \<open>Path.is_dir\<close> use it: a failure is "no entry".\<close>

definition stat :: "world \<Rightarrow> pypath \<Rightarrow> node option" where
  "stat w p =
     (if has_nul p then None
      else (case locate w p of Inl e \<Rightarrow> None | Inr k \<Rightarrow> map_of (fs w) k))"

definition path_exists :: "world \<Rightarrow> pypath \<Rightarrow> bool" where
  "path_exists w p \<longleftrightarrow> stat w p \<noteq> None"

definition path_is_dir :: "world \<Rightarrow> pypath \<Rightarrow> bool" where
  "path_is_dir w p \<longleftrightarrow> stat w p = Some Dir"

subsection \<open>\<open>os.mkdir\<close> and \<open>Path.mkdir\<close>\<close>

definition os_mkdir :: "env \<Rightarrow> pypath \<Rightarrow> world \<Rightarrow> (exn + unit) \<times> world" where
  "os_mkdir env p w =
     (if has_nul p then (Inl ValueError, w)
      else (case os_fault env SysMkdir p (fs w) of
              Some e \<Rightarrow> (Inl e, w)
            | None \<Rightarrow>
               (case locate w p of
                  Inl e \<Rightarrow> (Inl e, w)
                | Inr k \<Rightarrow>
                   (case map_of (fs w) k of
                      Some n \<Rightarrow> (Inl FileExistsError, w)
                    | None \<Rightarrow> (Inr (), w \<lparr> fs := AList.update k Dir (fs w) \<rparr>)))))"

text \<open>
  \<open>Path.mkdir(parents, exist_ok)\<close> of \<open>pathlib\<close>:
  \<^verbatim>\<open>
    try:
        os.mkdir(self, mode)
    except FileNotFoundError:
        if not parents or self.parent == self:
            raise
        self.parent.mkdir(parents=True, exist_ok=True)
        self.mkdir(mode, parents=False, exist_ok=exist_ok)
    except OSError:
        if not exist_ok or not self.is_dir():
            raise
  \<close>
\<close>

function path_mkdir :: "env \<Rightarrow> pypath \<Rightarrow> bool \<Rightarrow> bool \<Rightarrow> world \<Rightarrow> (exn + unit) \<times> world" where
  "path_mkdir env p parents exist_ok w =
     (case os_mkdir env p w of
        (Inr u, w1) \<Rightarrow> (Inr (), w1)
      | (Inl e, w1) \<Rightarrow>
          if e = FileNotFoundError then
            (if parents \<and> path_parent p \<noteq> p then
               (case path_mkdir env (path_parent p) True True w1 of
                  (Inl e2, w2) \<Rightarrow> (Inl e2, w2)
                | (Inr u, w2) \<Rightarrow> path_mkdir env p False exist_ok w2)
             else (Inl e, w1))
          else if is_OSError e then
            (if exist_ok \<and> path_is_dir w1 p then (Inr (), w1) else (Inl e, w1))
          else (Inl e, w1))"
  by pat_completeness auto
termination
proof (relation "measure (\<lambda>(env, p, parents, exist_ok, w).
        2 * length (parts p) + (if parents then 1 else 0))", goal_cases)
  case 1
  show ?case by simp
next
  case (2 env p parents exist_ok w x y e)
  have "parts p \<noteq> []"
  proof
    assume "parts p = []"
    then have "path_parent p = p" by (simp add: path_parent_def)
    with 2 show False by simp
  qed
  then show ?case by (cases "parts p") (simp_all add: path_parent_def)
next
  case 3
  then show ?case by simp
qed

declare path_mkdir.simps [simp del]

subsection \<open>Opening, reading and writing files\<close>

text \<open>\<open>open(p, "w")\<close> or \<open>"wb"\<close>: creates or truncates the file; the result is its location.\<close>

definition open_write :: "env \<Rightarrow> pypath \<Rightarrow> world \<Rightarrow> (exn + string list) \<times> world" where
  "open_write env p w =
     (if has_nul p then (Inl ValueError, w)
      else (case os_fault env SysOpenWrite p (fs w) of
              Some e \<Rightarrow> (Inl e, w)
            | None \<Rightarrow>
               (case locate w p of
                  Inl e \<Rightarrow> (Inl e, w)
                | Inr k \<Rightarrow>
                   (case map_of (fs w) k of
                      Some Dir \<Rightarrow> (Inl IsADirectoryError, w)
                    | Some (File c) \<Rightarrow> (Inr k, w \<lparr> fs := AList.update k (File (Raw [])) (fs w) \<rparr>)
                    | None \<Rightarrow> (Inr k, w \<lparr> fs := AList.update k (File (Raw [])) (fs w) \<rparr>)))))"

text \<open>\<open>open(p, "rb").read()\<close>\<close>

definition open_read :: "env \<Rightarrow> pypath \<Rightarrow> world \<Rightarrow> exn + content" where
  "open_read env p w =
     (if has_nul p then Inl ValueError
      else (case os_fault env SysOpenRead p (fs w) of
              Some e \<Rightarrow> Inl e
            | None \<Rightarrow>
               (case locate w p of
                  Inl e \<Rightarrow> Inl e
                | Inr k \<Rightarrow>
                   (case map_of (fs w) k of
                      Some Dir \<Rightarrow> Inl IsADirectoryError
                    | Some (File c) \<Rightarrow> Inr c
                    | None \<Rightarrow> Inl FileNotFoundError))))"

text \<open>Writing through an open file: the whole content, or one more block of bytes.\<close>

definition write_content :: "string list \<Rightarrow> content \<Rightarrow> world \<Rightarrow> world" where
  "write_content k c w = w \<lparr> fs := AList.update k (File c) (fs w) \<rparr>"

definition write_block :: "string list \<Rightarrow> string \<Rightarrow> world \<Rightarrow> world" where
  "write_block k b w =
     (case map_of (fs w) k of
        Some (File (Raw s)) \<Rightarrow> write_content k (Raw (s @ b)) w
      | _ \<Rightarrow> w)"

subsection \<open>\<open>shutil.copy\<close>\<close>

text \<open>
  \<open>shutil.copy(src, dst)\<close>: into the directory \<open>dst\<close> under the name of \<open>src\<close>, or onto
  \<open>dst\<close> itself when it is not a directory; source and destination must differ.
\<close>

definition shutil_copy :: "env \<Rightarrow> pypath \<Rightarrow> pypath \<Rightarrow> world \<Rightarrow> (exn + unit) \<times> world" where
  "shutil_copy env src dst w =
     (let target = (if path_is_dir w dst
                    then dst \<lparr> parts := parts dst @ [path_name src] \<rparr> else dst) in
      if path_exists w src \<and> path_exists w target \<and> locate w src = locate w target
      then (Inl SameFileError, w)
      else (case open_read env src w of
              Inl e \<Rightarrow> (Inl e, w)
            | Inr c \<Rightarrow>
               (case open_write env target w of
                  (Inl e, w1) \<Rightarrow> (Inl e, w1)
                | (Inr k, w1) \<Rightarrow> (Inr (), write_content k c w1))))"

subsection \<open>\<open>Path.glob("**/*")\<close>\<close>

text \<open>
  Every entry below the directory, at any depth, files and directories alike. The
  order is that of the operating system's directory listing, here the order in which
  the file system stores its entries. The script does not change the scanned tree
  while it iterates, so the result is computed at once.
\<close>

definition below :: "filesystem \<Rightarrow> string list \<Rightarrow> string list \<Rightarrow> bool" where
  "below f k q \<longleftrightarrow>
     length k < length q \<and> take (length k) q = k \<and> map_of f q \<noteq> None \<and>
     list_all (\<lambda>n. map_of f (take n q) = Some Dir) [length k ..< length q]"

definition glob_all :: "world \<Rightarrow> pypath \<Rightarrow> pypath list" where
  "glob_all w d =
     (if path_is_dir w d then
        (case locate w d of
           Inl e \<Rightarrow> []
         | Inr k \<Rightarrow>
            map (\<lambda>q. d \<lparr> parts := parts d @ drop (length k) q \<rparr>)
                (filter (below (fs w) k) (remdups (map fst (fs w)))))
      else [])"

subsection \<open>\<open>urllib.request.urlretrieve\<close>\<close>

text \<open>
  \<open>urlretrieve(url, filename, reporthook)\<close> opens the URL, then the file, calls the hook
  once with block number 0 and once after every block written, and raises
  \<open>ContentTooShortError\<close> when fewer bytes arrived than the announced size.
  The hook is a parameter, as in the library.
\<close>

fun retrieve_blocks ::
  "(int \<Rightarrow> int \<Rightarrow> int \<Rightarrow> world \<Rightarrow> (exn + unit) \<times> world) \<Rightarrow>
   string list \<Rightarrow> int \<Rightarrow> int \<Rightarrow> string list \<Rightarrow> exn option \<Rightarrow> world \<Rightarrow> (exn + int) \<times> world" where
  "retrieve_blocks hook k total_size blocknum [] err w =
     (case err of Some e \<Rightarrow> (Inl e, w) | None \<Rightarrow> (Inr 0, w))"
| "retrieve_blocks hook k total_size blocknum (b # bs) err w =
     (if b = [] then (Inr 0, w)
      else (case hook (blocknum + 1) 8192 total_size (write_block k b w) of
              (Inl e, w1) \<Rightarrow> (Inl e, w1)
            | (Inr u, w1) \<Rightarrow>
               (case retrieve_blocks hook k total_size (blocknum + 1) bs err w1 of
                  (Inl e, w2) \<Rightarrow> (Inl e, w2)
                | (Inr n, w2) \<Rightarrow> (Inr (int (length b) + n), w2))))"

definition urlretrieve ::
  "env \<Rightarrow> string \<Rightarrow> pyval \<Rightarrow> (int \<Rightarrow> int \<Rightarrow> int \<Rightarrow> world \<Rightarrow> (exn + unit) \<times> world) \<Rightarrow>
   world \<Rightarrow> (exn + unit) \<times> world" where
  "urlretrieve env url filename hook w0 =
     (let w = w0 \<lparr> net_log := net_log w0 @ [url] \<rparr> in
      case http env url of
        ConnFail e \<Rightarrow> (Inl e, w)
      | Response total_size blocks err \<Rightarrow>
         (case open_write env (fspath filename) w of
            (Inl e, w1) \<Rightarrow> (Inl e, w1)
          | (Inr k, w1) \<Rightarrow>
             (case hook 0 8192 total_size w1 of
                (Inl e, w2) \<Rightarrow> (Inl e, w2)
              | (Inr u, w2) \<Rightarrow>
                 (case retrieve_blocks hook k total_size 0 blocks err w2 of
                    (Inl e, w3) \<Rightarrow> (Inl e, w3)
                  | (Inr n, w3) \<Rightarrow>
                     if 0 \<le> total_size \<and> n < total_size then (Inl ContentTooShortError, w3)
                     else (Inr (), w3)))))"

subsection \<open>External extraction\<close>

text \<open>
  \<open>subprocess.run(["unzip", "-o", file_path, "-d", extract_dir], check=True)\<close> and
  \<open>tarfile.open(file_path).extractall(path=extract_dir)\<close>: the environment decides
  what they do to the file system and whether they raise.
\<close>

definition subprocess_run_unzip :: "env \<Rightarrow> pyval \<Rightarrow> pyval \<Rightarrow> world \<Rightarrow> (exn + unit) \<times> world" where
  "subprocess_run_unzip env file_path extract_dir w =
     (case run_unzip env (py_str file_path) (py_str extract_dir) (cwd w) (fs w) of
        (Some e, f) \<Rightarrow> (Inl e, w \<lparr> fs := f \<rparr>)
      | (None, f) \<Rightarrow> (Inr (), w \<lparr> fs := f \<rparr>))"

definition tarfile_extractall :: "env \<Rightarrow> pyval \<Rightarrow> pyval \<Rightarrow> world \<Rightarrow> (exn + unit) \<times> world" where
  "tarfile_extractall env file_path extract_dir w =
     (case tar_extractall env (py_str file_path) (py_str extract_dir) (cwd w) (fs w) of
        (Some e, f) \<Rightarrow> (Inl e, w \<lparr> fs := f \<rparr>)
      | (None, f) \<Rightarrow> (Inr (), w \<lparr> fs := f \<rparr>))"

section \<open>The script\<close>

subsection \<open>\<open>download_file\<close> (lines 26-41)\<close>

text \<open>
  The progress callback divides by \<open>total_size\<close>; the text it writes is not modelled
  (it comes from a floating-point quotient).
\<close>

definition progress_callback :: "int \<Rightarrow> int \<Rightarrow> int \<Rightarrow> world \<Rightarrow> (exn + unit) \<times> world" where
  "progress_callback count block_size total_size w =
     (if total_size = 0 then (Inl ZeroDivisionError, w)
      else (Inr (), w \<lparr> stdout := stdout w @ [Progress count block_size total_size] \<rparr>))"

definition download_file :: "env \<Rightarrow> string \<Rightarrow> pyval \<Rightarrow> world \<Rightarrow> (exn + bool) \<times> world" where
  "download_file env url target_path w0 =
     (let w = print (''Downloading from '' @ url @ ''...'') w0 in
      case urlretrieve env url target_path progress_callback w of
        (Inr u, w1) \<Rightarrow>
          (Inr True, print (CHR 0x0A # ''Download complete: '' @ py_str target_path) w1)
      | (Inl e, w1) \<Rightarrow>
          (Inr False, print_error (CHR 0x0A # ''Error downloading file: '') e w1))"

subsection \<open>\<open>extract_file\<close> (lines 43-57)\<close>

text \<open>The body of the \<open>try\<close> up to the call that extracts (lines 47-52).\<close>

definition extract_dispatch :: "env \<Rightarrow> pyval \<Rightarrow> pyval \<Rightarrow> world \<Rightarrow> (exn + unit) \<times> world" where
  "extract_dispatch env file_path extract_dir w =
     (case py_endswith file_path ''.zip'' of
        Inl e \<Rightarrow> (Inl e, w)
      | Inr True \<Rightarrow> subprocess_run_unzip env file_path extract_dir w
      | Inr False \<Rightarrow>
         (case py_endswith file_path ''.tar.gz'' of
            Inl e \<Rightarrow> (Inl e, w)
          | Inr True \<Rightarrow> tarfile_extractall env file_path extract_dir w
          | Inr False \<Rightarrow>
             (case py_endswith file_path ''.tgz'' of
                Inl e \<Rightarrow> (Inl e, w)
              | Inr True \<Rightarrow> tarfile_extractall env file_path extract_dir w
              | Inr False \<Rightarrow> (Inr (), w))))"

definition extract_file :: "env \<Rightarrow> pyval \<Rightarrow> pyval \<Rightarrow> world \<Rightarrow> (exn + bool) \<times> world" where
  "extract_file env file_path extract_dir w0 =
     (let w = print (''Extracting '' @ py_str file_path @ '' to '' @ py_str extract_dir @ ''...'') w0 in
      case extract_dispatch env file_path extract_dir w of
        (Inr u, w1) \<Rightarrow> (Inr True, print (''Extraction complete: '' @ py_str extract_dir) w1)
      | (Inl e, w1) \<Rightarrow> (Inr False, print_error ''Error extracting file: '' e w1))"

subsection \<open>\<open>setup_model\<close> (lines 59-117)\<close>

definition data_dir :: pypath where
  "data_dir = Path ''data/models''"

definition model_dir_of :: "string \<Rightarrow> string \<Rightarrow> pypath" where
  "model_dir_of model_type language =
     Path (''backend/src/espnet/models/'' @ model_type @ ''/'' @ language)"

definition download_path_of :: "string \<Rightarrow> pypath" where
  "download_path_of url = joinpath data_dir (last (split CHR ''/'' url))"

definition extract_dir_of :: "string \<Rightarrow> string \<Rightarrow> pypath" where
  "extract_dir_of model_type language =
     joinpath data_dir (model_type @ ''_'' @ language @ ''_tmp'')"

text \<open>The loop of lines 92-95 over the result of the glob.\<close>

fun copy_matching :: "env \<Rightarrow> pypath list \<Rightarrow> pypath \<Rightarrow> world \<Rightarrow> (exn + unit) \<times> world" where
  "copy_matching env [] model_dir w = (Inr (), w)"
| "copy_matching env (file # files) model_dir w =
     (if path_name file \<in> set [''model.json'', ''config.yaml'', ''train.yaml'', ''model.pth'']
      then (case shutil_copy env file model_dir w of
              (Inl e, w1) \<Rightarrow> (Inl e, w1)
            | (Inr u, w1) \<Rightarrow>
                copy_matching env files model_dir
                  (print (''Copied '' @ path_name file @ '' to '' @ path_str model_dir) w1))
      else copy_matching env files model_dir w)"

text \<open>Lines 91-117: copy the relevant files, write \<open>config.json\<close>, return \<open>True\<close>.\<close>

definition setup_install ::
  "env \<Rightarrow> string \<Rightarrow> string \<Rightarrow> download_info \<Rightarrow> world \<Rightarrow> (exn + bool) \<times> world" where
  "setup_install env model_type language download_info w =
     (let model_dir = model_dir_of model_type language;
          url = info_url download_info;
          extract_dir = extract_dir_of model_type language in
      case copy_matching env (glob_all w extract_dir) model_dir w of
        (Inl e, w1) \<Rightarrow> (Inl e, w1)
      | (Inr u, w1) \<Rightarrow>
         (let config = make_config model_type language download_info url in
          case open_write env (joinpath model_dir ''config.json'') w1 of
            (Inl e, w2) \<Rightarrow> (Inl e, w2)
          | (Inr k, w2) \<Rightarrow>
              (Inr True,
               print (capitalize language @ '' '' @ upper model_type @ '' model setup complete!'')
                 (write_content k (ConfigJson config) w2))))"

text \<open>Lines 84-89, then the installation.\<close>

definition setup_extract ::
  "env \<Rightarrow> string \<Rightarrow> string \<Rightarrow> download_info \<Rightarrow> world \<Rightarrow> (exn + bool) \<times> world" where
  "setup_extract env model_type language download_info w =
     (let download_path = download_path_of (info_url download_info);
          extract_dir = extract_dir_of model_type language in
      case path_mkdir env extract_dir False True w of
        (Inl e, w1) \<Rightarrow> (Inl e, w1)
      | (Inr u, w1) \<Rightarrow>
         (case extract_file env (PPath download_path) (PPath extract_dir) w1 of
            (Inl e, w2) \<Rightarrow> (Inl e, w2)
          | (Inr ok, w2) \<Rightarrow>
              if \<not> ok then (Inr False, w2)
              else setup_install env model_type language download_info w2))"

text \<open>Lines 73-82, then the extraction.\<close>

definition setup_download ::
  "env \<Rightarrow> string \<Rightarrow> string \<Rightarrow> download_info \<Rightarrow> world \<Rightarrow> (exn + bool) \<times> world" where
  "setup_download env model_type language download_info w =
     (let url = info_url download_info;
          download_path = download_path_of url in
      if \<not> path_exists w download_path then
        (case download_file env url (PPath download_path) w of
           (Inl e, w1) \<Rightarrow> (Inl e, w1)
         | (Inr ok, w1) \<Rightarrow>
             if \<not> ok then (Inr False, w1)
             else setup_extract env model_type language download_info w1)
      else setup_extract env model_type language download_info
             (print (''Model file already exists: '' @ path_str download_path) w))"

text \<open>Lines 59-71, then the download.\<close>

definition setup_model :: "env \<Rightarrow> string \<Rightarrow> string \<Rightarrow> world \<Rightarrow> (exn + bool) \<times> world" where
  "setup_model env model_type language w =
     (case path_mkdir env data_dir True True w of
        (Inl e, w1) \<Rightarrow> (Inl e, w1)
      | (Inr u, w1) \<Rightarrow>
         (case path_mkdir env (model_dir_of model_type language) True True w1 of
            (Inl e, w2) \<Rightarrow> (Inl e, w2)
          | (Inr u, w2) \<Rightarrow>
             (case catalog_get model_type language of
                None \<Rightarrow>
                  (Inr False,
                   print (''No download information for '' @ language @ '' '' @ model_type @ '' model'') w2)
              | Some download_info \<Rightarrow>
                  setup_download env model_type language download_info w2)))"

subsection \<open>\<open>main\<close> (lines 119-137)\<close>

definition main :: "env \<Rightarrow> world \<Rightarrow> (exn + unit) \<times> world" where
  "main env w0 =
     (let w = print ''Setting up English models for TalkGhana...'' w0 in
      case setup_model env ''asr'' ''english'' w of
        (Inl e, w1) \<Rightarrow> (Inl e, w1)
      | (Inr ok_asr, w1) \<Rightarrow>
         (let w2 = print (if ok_asr then ''English ASR model setup successful!''
                          else ''English ASR model setup failed!'') w1 in
          case setup_model env ''tts'' ''english'' w2 of
            (Inl e, w3) \<Rightarrow> (Inl e, w3)
          | (Inr ok_tts, w3) \<Rightarrow>
             (let w4 = print (if ok_tts then ''English TTS model setup successful!''
                              else ''English TTS model setup failed!'') w3 in
              (Inr (),
               print (''For Ghanaian languages, you'' @ [CHR 0x27] @
                      ''ll need to train custom models or use the placeholders.'')
                 (print ''Note: These are pre-trained models for English only.''
                    (print (CHR 0x0A # ''Model download and setup complete!'') w4))))))"

section \<open>Concrete environments and worlds\<close>

text \<open>
  An archive whose members are \<open>config.yaml\<close>, \<open>model.pth\<close> and \<open>irrelevant.txt\<close>, and
  one that holds \<open>README.md\<close> only: what a working \<open>unzip\<close> writes below the
  directory it is given.
\<close>

definition unzip_three ::
  "string \<Rightarrow> string \<Rightarrow> string list \<Rightarrow> filesystem \<Rightarrow> exn option \<times> filesystem" where
  "unzip_three archive dir wd f =
     (None,
      AList.update (wd @ parts (Path dir) @ [''irrelevant.txt'']) (File (Raw ''notes''))
        (AList.update (wd @ parts (Path dir) @ [''model.pth'']) (File (Raw ''weights''))
          (AList.update (wd @ parts (Path dir) @ [''config.yaml'']) (File (Raw ''conf'')) f)))"


text \<open>No system call fails, the server sends three bytes, the extractors work.\<close>

definition env_ok :: env where
  "env_ok = \<lparr> os_fault = (\<lambda>call p f. None),
              http = (\<lambda>u. Response 3 [''zip''] None),
              run_unzip = unzip_three,
              tar_extractall = (\<lambda>archive dir wd f. (None, f)) \<rparr>"


text \<open>The network is down.\<close>

definition env_offline :: env where
  "env_offline = env_ok \<lparr> http := (\<lambda>u. ConnFail URLError) \<rparr>"

text \<open>An empty project directory \<open>/srv\<close>.\<close>

definition world_empty :: world where
  "world_empty = \<lparr> fs = [([], Dir), ([''srv''], Dir)], cwd = [''srv''], stdout = [], net_log = [] \<rparr>"

text \<open>A regular file sits where a directory is to be created.\<close>

definition world_data_is_file :: world where
  "world_data_is_file =
     world_empty \<lparr> fs := [([], Dir), ([''srv''], Dir), ([''srv'', ''data''], File (Raw ''x''))] \<rparr>"



definition world_asr_is_file :: world where
  "world_asr_is_file =
     world_empty \<lparr> fs := [([], Dir), ([''srv''], Dir), ([''srv'', ''backend''], Dir),
                           ([''srv'', ''backend'', ''src''], Dir),
                           ([''srv'', ''backend'', ''src'', ''espnet''], Dir),
                           ([''srv'', ''backend'', ''src'', ''espnet'', ''models''], Dir),
                           ([''srv'', ''backend'', ''src'', ''espnet'', ''models'', ''asr''],
                            File (Raw ''x''))] \<rparr>"


text \<open>The ASR archive is already in the download cache.\<close>

definition world_cached :: world where
  "world_cached =
     world_empty \<lparr> fs := [([], Dir), ([''srv''], Dir), ([''srv'', ''data''], Dir),
                           ([''srv'', ''data'', ''models''], Dir),
                           ([''srv'', ''data'', ''models'',
                             ''asr_train_asr_transformer_e18_raw_bpe_sp_valid.acc.ave.zip''],
                            File (Raw ''zip''))] \<rparr>"

section \<open>Auxiliary notions for the proofs\<close>

text \<open>
  \<open>frame w w'\<close>: from \<open>w\<close> to \<open>w'\<close> nothing was printed, no URL was requested, and every
  entry of the file system is still there, unchanged.
\<close>

definition frame :: "world \<Rightarrow> world \<Rightarrow> bool" where
  "frame w w' \<longleftrightarrow>
     cwd w' = cwd w \<and> stdout w' = stdout w \<and> net_log w' = net_log w \<and>
     (\<forall>k n. map_of (fs w) k = Some n \<longrightarrow> map_of (fs w') k = Some n)"

text \<open>\<open>keeps_dirs w w'\<close>: every directory of \<open>w\<close> is a directory of \<open>w'\<close>.\<close>

definition keeps_dirs :: "world \<Rightarrow> world \<Rightarrow> bool" where
  "keeps_dirs w w' \<longleftrightarrow>
     cwd w' = cwd w \<and> (\<forall>k. map_of (fs w) k = Some Dir \<longrightarrow> map_of (fs w') k = Some Dir)"

section \<open>Facts about the library model\<close>



lemma print_fields [simp]:
  "fs (print s w) = fs w" "cwd (print s w) = cwd w" "net_log (print s w) = net_log w"
  "stdout (print s w) = stdout w @ [Line s]"
  by (simp_all add: print_def)

lemma print_error_fields [simp]:
  "fs (print_error s e w) = fs w" "cwd (print_error s e w) = cwd w"
  "net_log (print_error s e w) = net_log w"
  "stdout (print_error s e w) = stdout w @ [ErrorLine s e]"
  by (simp_all add: print_error_def)

lemma os_mkdir_ok:
  "os_mkdir env p w = (Inr u, w1) \<Longrightarrow>
     \<not> has_nul p \<and> (\<exists>k. locate w p = Inr k \<and> map_of (fs w) k = None \<and>
        w1 = w \<lparr> fs := AList.update k Dir (fs w) \<rparr>)"
  by (auto simp: os_mkdir_def split: if_splits option.splits sum.splits)

lemma walk_mono:
  assumes "\<And>k. map_of f k = Some Dir \<Longrightarrow> map_of g k = Some Dir"
    and "walk f cur ns = Inr d"
  shows "walk g cur ns = Inr d"
  using assms(2)
proof (induction ns arbitrary: cur)
  case Nil
  then show ?case using assms(1)[of cur] by (auto split: option.splits node.splits)
next
  case (Cons n ns)
  then show ?case using assms(1)[of cur] by (auto split: option.splits node.splits)
qed

lemma locate_mono:
  assumes "\<And>k. map_of (fs w) k = Some Dir \<Longrightarrow> map_of (fs w') k = Some Dir"
    and "cwd w' = cwd w" and "locate w p = Inr k"
  shows "locate w' p = Inr k"
proof -
  let ?start = "if is_abs p then [] else cwd w"
  show ?thesis
  proof (cases "parts p = []")
    case True
    with assms(3) have "walk (fs w) ?start [] = Inr k"
      by (simp add: locate_def del: walk.simps)
    from walk_mono[of "fs w" "fs w'", OF assms(1) this] True assms(2)
    show ?thesis by (auto simp: locate_def simp del: walk.simps split: if_splits)
  next
    case False
    with assms(3) obtain d where d: "walk (fs w) ?start (butlast (parts p)) = Inr d"
      and k: "k = (if last (parts p) = ''..'' then butlast d else d @ [last (parts p)])"
      by (auto simp: locate_def Let_def simp del: walk.simps split: sum.splits)
    from walk_mono[of "fs w" "fs w'", OF assms(1) d] False assms(2) k
    show ?thesis by (auto simp: locate_def simp del: walk.simps split: if_splits)
  qed
qed

lemma path_is_dir_mono:
  assumes "\<And>k. map_of (fs w) k = Some Dir \<Longrightarrow> map_of (fs w') k = Some Dir"
    and "cwd w' = cwd w" and "path_is_dir w p"
  shows "path_is_dir w' p"
proof -
  from assms(3) obtain k where k: "\<not> has_nul p" "locate w p = Inr k" "map_of (fs w) k = Some Dir"
    by (auto simp: path_is_dir_def stat_def split: if_splits sum.splits)
  from locate_mono[OF assms(1) assms(2) k(2)] assms(1)[OF k(3)] k(1)
  show ?thesis by (simp add: path_is_dir_def stat_def)
qed

lemma os_mkdir_frame:
  assumes "os_mkdir env p w = (r, w1)"
  shows "cwd w1 = cwd w" "stdout w1 = stdout w" "net_log w1 = net_log w"
    "map_of (fs w) k = Some n \<Longrightarrow> map_of (fs w1) k = Some n"
  using assms
  by (auto simp: os_mkdir_def update_conv' split: if_splits option.splits sum.splits)

lemma frame_trans: "frame a b \<Longrightarrow> frame b c \<Longrightarrow> frame a c"
  by (simp add: frame_def)

lemma os_mkdir_frame': "os_mkdir env p w = (r, w1) \<Longrightarrow> frame w w1"
  using os_mkdir_frame[of env p w r w1] by (simp add: frame_def)

lemma path_mkdir_frame:
  "path_mkdir env p parents exist_ok w = (r, w') \<Longrightarrow> frame w w'"
proof (induction env p parents exist_ok w arbitrary: r w' rule: path_mkdir.induct)
  case (1 env p parents exist_ok w)
  obtain r1 w1 where om: "os_mkdir env p w = (r1, w1)" by (cases "os_mkdir env p w")
  note fr = os_mkdir_frame'[OF om]
  show ?case
  proof (cases r1)
    case (Inr u)
    with om "1.prems" have "w' = w1" by (subst (asm) path_mkdir.simps) simp
    with fr show ?thesis by simp
  next
    case (Inl e)
    show ?thesis
    proof (cases "e = FileNotFoundError \<and> parents \<and> path_parent p \<noteq> p")
      case False
      with om Inl "1.prems" have "w' = w1"
        by (subst (asm) path_mkdir.simps) (auto split: if_splits)
      with fr show ?thesis by simp
    next
      case True
      obtain r2 w2 where pm: "path_mkdir env (path_parent p) True True w1 = (r2, w2)"
        by (cases "path_mkdir env (path_parent p) True True w1")
      from True have h: "e = FileNotFoundError" "parents \<and> path_parent p \<noteq> p" by auto
      have f2: "frame w1 w2"
        using "1.IH"(1)[OF om[symmetric] Inl h pm] .
      show ?thesis
      proof (cases r2)
        case (Inl e2)
        with om \<open>r1 = Inl e\<close> h pm "1.prems" have "w' = w2"
          by (subst (asm) path_mkdir.simps) simp
        with fr f2 show ?thesis by (auto intro: frame_trans)
      next
        case (Inr b)
        with om \<open>r1 = Inl e\<close> h pm "1.prems"
        have "path_mkdir env p False exist_ok w2 = (r, w')"
          by (subst (asm) path_mkdir.simps) simp
        from "1.IH"(2)[OF om[symmetric] \<open>r1 = Inl e\<close> h pm[symmetric] Inr this]
        have "frame w2 w'" .
        with fr f2 show ?thesis by (auto intro: frame_trans)
      qed
    qed
  qed
qed

lemma path_mkdir_is_dir:
  "path_mkdir env p parents True w = (Inr u, w') \<Longrightarrow> path_is_dir w' p"
proof (induction env p parents "True" w arbitrary: u w' rule: path_mkdir.induct)
  case (1 env p parents w)
  obtain r1 w1 where om: "os_mkdir env p w = (r1, w1)" by (cases "os_mkdir env p w")
  show ?case
  proof (cases r1)
    case (Inr u1)
    with om "1.prems" have w': "w' = w1" by (subst (asm) path_mkdir.simps) simp
    from os_mkdir_ok[OF om[unfolded Inr]] obtain k where
      k: "\<not> has_nul p" "locate w p = Inr k" "map_of (fs w) k = None"
         "w1 = w \<lparr> fs := AList.update k Dir (fs w) \<rparr>" by auto
    have "locate w1 p = Inr k"
    proof (rule locate_mono[OF _ _ k(2)])
      fix q assume "map_of (fs w) q = Some Dir"
      with k(3,4) show "map_of (fs w1) q = Some Dir" by (auto simp: update_conv')
    next
      show "cwd w1 = cwd w" using k(4) by simp
    qed
    moreover have "map_of (fs w1) k = Some Dir" using k(4) by (simp add: update_conv')
    ultimately show ?thesis using k(1) w' by (simp add: path_is_dir_def stat_def)
  next
    case (Inl e)
    show ?thesis
    proof (cases "e = FileNotFoundError")
      case False
      with om Inl "1.prems" have "path_is_dir w1 p \<and> w' = w1"
        by (subst (asm) path_mkdir.simps) (auto split: if_splits)
      then show ?thesis by simp
    next
      case True
      with om Inl "1.prems" have h: "parents \<and> path_parent p \<noteq> p"
        by (subst (asm) path_mkdir.simps) (auto split: if_splits)
      obtain r2 w2 where pm: "path_mkdir env (path_parent p) True True w1 = (r2, w2)"
        by (cases "path_mkdir env (path_parent p) True True w1")
      from om Inl True h pm "1.prems" obtain b where b: "r2 = Inr b"
        and rest: "path_mkdir env p False True w2 = (Inr u, w')"
        by (subst (asm) path_mkdir.simps) (auto split: sum.splits)
      from "1.hyps"(2)[OF om[symmetric] Inl True h pm[symmetric] b rest]
      show ?thesis .
    qed
  qed
qed


lemma keeps_dirs_refl [simp]: "keeps_dirs w w"
  by (simp add: keeps_dirs_def)

lemma keeps_dirs_trans: "keeps_dirs a b \<Longrightarrow> keeps_dirs b c \<Longrightarrow> keeps_dirs a c"
  by (simp add: keeps_dirs_def)

lemma frame_keeps_dirs: "frame w w' \<Longrightarrow> keeps_dirs w w'"
  by (simp add: frame_def keeps_dirs_def)

lemma keeps_dirs_print [simp]:
  "keeps_dirs w (print s w')  = keeps_dirs w w'" "keeps_dirs w (print_error s e w') = keeps_dirs w w'"
  "keeps_dirs (print s w) w'  = keeps_dirs w w'" "keeps_dirs (print_error s e w) w' = keeps_dirs w w'"
  by (simp_all add: keeps_dirs_def)

lemma keeps_dirs_is_dir: "keeps_dirs w w' \<Longrightarrow> path_is_dir w p \<Longrightarrow> path_is_dir w' p"
  by (rule path_is_dir_mono[of w w']) (auto simp: keeps_dirs_def)

lemma open_write_keeps_dirs: "open_write env p w = (r, w1) \<Longrightarrow> keeps_dirs w w1"
  by (auto simp: open_write_def keeps_dirs_def update_conv'
           split: if_splits option.splits sum.splits node.splits)

lemma write_block_keeps_dirs: "keeps_dirs w (write_block k b w)"
  by (auto simp: write_block_def write_content_def keeps_dirs_def update_conv'
           split: option.splits node.splits content.splits)

lemma progress_callback_keeps_dirs: "progress_callback c b t w = (r, w1) \<Longrightarrow> keeps_dirs w w1"
  by (auto simp: progress_callback_def keeps_dirs_def split: if_splits)

lemma retrieve_blocks_keeps_dirs:
  "retrieve_blocks progress_callback k t n bs err w = (r, w1) \<Longrightarrow> keeps_dirs w w1"
proof (induction bs arbitrary: n w r w1)
  case Nil
  then show ?case by (auto split: option.splits)
next
  case (Cons b bs)
  show ?case
  proof (cases "b = []")
    case True
    with Cons.prems show ?thesis by simp
  next
    case False
    obtain r2 w2 where h: "progress_callback (n + 1) 8192 t (write_block k b w) = (r2, w2)"
      by (cases "progress_callback (n + 1) 8192 t (write_block k b w)")
    from progress_callback_keeps_dirs[OF h] write_block_keeps_dirs[of w k b]
    have k2: "keeps_dirs w w2" by (rule keeps_dirs_trans[rotated])
    show ?thesis
    proof (cases r2)
      case (Inl e)
      with Cons.prems False h k2 show ?thesis by simp
    next
      case (Inr u)
      obtain r3 w3 where h3: "retrieve_blocks progress_callback k t (n + 1) bs err w2 = (r3, w3)"
        by (cases "retrieve_blocks progress_callback k t (n + 1) bs err w2")
      from Cons.IH[OF h3] k2 have "keeps_dirs w w3" by (rule keeps_dirs_trans[rotated])
      with Cons.prems False h Inr h3 show ?thesis by (auto split: sum.splits)
    qed
  qed
qed

lemma urlretrieve_keeps_dirs:
  "urlretrieve env url target progress_callback w = (r, w1) \<Longrightarrow> keeps_dirs w w1"
proof -
  assume a: "urlretrieve env url target progress_callback w = (r, w1)"
  let ?w = "w \<lparr> net_log := net_log w @ [url] \<rparr>"
  have k0: "keeps_dirs w ?w" by (simp add: keeps_dirs_def)
  show ?thesis
  proof (cases "http env url")
    case (ConnFail e)
    with a k0 show ?thesis by (simp add: urlretrieve_def Let_def)
  next
    case (Response t bs err)
    obtain r1 wa where ow: "open_write env (fspath target) ?w = (r1, wa)"
      by (cases "open_write env (fspath target) ?w")
    from open_write_keeps_dirs[OF ow] k0 have k1: "keeps_dirs w wa" by (rule keeps_dirs_trans[rotated])
    show ?thesis
    proof (cases r1)
      case (Inl e)
      with a Response ow k1 show ?thesis by (simp add: urlretrieve_def Let_def)
    next
      case (Inr k)
      obtain r2 wb where pc: "progress_callback 0 8192 t wa = (r2, wb)"
        by (cases "progress_callback 0 8192 t wa")
      from progress_callback_keeps_dirs[OF pc] k1 have k2: "keeps_dirs w wb"
        by (rule keeps_dirs_trans[rotated])
      show ?thesis
      proof (cases r2)
        case (Inl e)
        with a Response ow \<open>r1 = Inr k\<close> pc k2 show ?thesis by (simp add: urlretrieve_def Let_def)
      next
        case (Inr u)
        obtain r3 wc where rb: "retrieve_blocks progress_callback k t 0 bs err wb = (r3, wc)"
          by (cases "retrieve_blocks progress_callback k t 0 bs err wb")
        from retrieve_blocks_keeps_dirs[OF rb] k2 have "keeps_dirs w wc"
          by (rule keeps_dirs_trans[rotated])
        with a Response ow \<open>r1 = Inr k\<close> pc Inr rb show ?thesis
          by (auto simp: urlretrieve_def Let_def split: sum.splits if_splits)
      qed
    qed
  qed
qed

lemma download_file_returns:
  "\<exists>ok w1. download_file env url target w = (Inr ok, w1)"
  by (cases "urlretrieve env url target progress_callback (print (''Downloading from '' @ url @ ''...'') w)")
     (auto simp: download_file_def Let_def split: sum.splits)

lemma download_file_keeps_dirs:
  "download_file env url target w = (r, w1) \<Longrightarrow> keeps_dirs w w1"
proof -
  assume a: "download_file env url target w = (r, w1)"
  obtain r0 w0 where u: "urlretrieve env url target progress_callback (print (''Downloading from '' @ url @ ''...'') w) = (r0, w0)"
    by (cases "urlretrieve env url target progress_callback (print (''Downloading from '' @ url @ ''...'') w)")
  from urlretrieve_keeps_dirs[OF u] have "keeps_dirs w w0" by simp
  with a u show ?thesis by (auto simp: download_file_def Let_def split: sum.splits)
qed

lemma extract_file_Path:
  "extract_file env (PPath p) d w =
     (Inr False, print_error ''Error extracting file: '' AttributeError
        (print (''Extracting '' @ path_str p @ '' to '' @ py_str d @ ''...'') w))"
  by (simp add: extract_file_def extract_dispatch_def)


lemma setup_extract_eq:
  "setup_extract env mt lang info w =
     (case path_mkdir env (extract_dir_of mt lang) False True w of
        (Inl e, w1) \<Rightarrow> (Inl e, w1)
      | (Inr u, w1) \<Rightarrow>
          (Inr False, print_error ''Error extracting file: '' AttributeError
             (print (''Extracting '' @ path_str (download_path_of (info_url info)) @ '' to '' @
                     path_str (extract_dir_of mt lang) @ ''...'') w1)))"
  by (simp add: setup_extract_def extract_file_Path Let_def split: prod.splits sum.splits)


lemma setup_extract_keeps_dirs: "setup_extract env mt lang info w = (r, w1) \<Longrightarrow> keeps_dirs w w1"
  by (auto simp: setup_extract_eq split: prod.splits sum.splits
           dest!: path_mkdir_frame frame_keeps_dirs)

lemma setup_download_keeps_dirs: "setup_download env mt lang info w = (r, w1) \<Longrightarrow> keeps_dirs w w1"
proof -
  assume a: "setup_download env mt lang info w = (r, w1)"
  let ?dp = "download_path_of (info_url info)"
  show ?thesis
  proof (cases "path_exists w ?dp")
    case True
    with a have "setup_extract env mt lang info (print (''Model file already exists: '' @ path_str ?dp) w) = (r, w1)"
      by (simp add: setup_download_def Let_def)
    from setup_extract_keeps_dirs[OF this] show ?thesis by simp
  next
    case False
    obtain ok w0 where d: "download_file env (info_url info) (PPath ?dp) w = (Inr ok, w0)"
      using download_file_returns by blast
    note k0 = download_file_keeps_dirs[OF d]
    show ?thesis
    proof (cases ok)
      case True
      with a False d have "setup_extract env mt lang info w0 = (r, w1)"
        by (simp add: setup_download_def Let_def)
      from setup_extract_keeps_dirs[OF this] k0 show ?thesis by (rule keeps_dirs_trans[rotated])
    next
      case f: False
      with a False d k0 show ?thesis by (simp add: setup_download_def Let_def)
    qed
  qed
qed

section \<open>Facts about \<open>setup_model\<close>\<close>

lemma frame_fields:
  "frame w w' \<Longrightarrow> cwd w' = cwd w \<and> stdout w' = stdout w \<and> net_log w' = net_log w"
  by (simp add: frame_def)


lemma setup_model_keeps_dirs:
  assumes "setup_model env mt lang w = (r, w')"
  shows "keeps_dirs w w'"
proof -
  obtain r1 w1 where m1: "path_mkdir env data_dir True True w = (r1, w1)"
    by (cases "path_mkdir env data_dir True True w")
  note k1 = frame_keeps_dirs[OF path_mkdir_frame[OF m1]]
  show ?thesis
  proof (cases r1)
    case (Inl e)
    with assms m1 k1 show ?thesis by (simp add: setup_model_def)
  next
    case (Inr u)
    obtain r2 w2 where m2: "path_mkdir env (model_dir_of mt lang) True True w1 = (r2, w2)"
      by (cases "path_mkdir env (model_dir_of mt lang) True True w1")
    from frame_keeps_dirs[OF path_mkdir_frame[OF m2]] k1 have k2: "keeps_dirs w w2"
      by (rule keeps_dirs_trans[rotated])
    show ?thesis
    proof (cases r2)
      case (Inl e)
      with assms m1 \<open>r1 = Inr u\<close> m2 k2 show ?thesis by (simp add: setup_model_def)
    next
      case r2: (Inr u2)
      show ?thesis
      proof (cases "catalog_get mt lang")
        case None
        with assms m1 \<open>r1 = Inr u\<close> m2 r2 k2 show ?thesis by (auto simp: setup_model_def)
      next
        case (Some info)
        with assms m1 \<open>r1 = Inr u\<close> m2 r2 have "setup_download env mt lang info w2 = (r, w')"
          by (simp add: setup_model_def)
        from setup_download_keeps_dirs[OF this] k2 show ?thesis by (rule keeps_dirs_trans[rotated])
      qed
    qed
  qed
qed

lemma setup_model_dirs:
  assumes "setup_model env mt lang w = (Inr ok, w')"
  shows "path_is_dir w' data_dir \<and> path_is_dir w' (model_dir_of mt lang)"
proof -
  obtain r1 w1 where m1: "path_mkdir env data_dir True True w = (r1, w1)"
    by (cases "path_mkdir env data_dir True True w")
  from assms m1 obtain u where r1: "r1 = Inr u" by (cases r1) (auto simp: setup_model_def)
  obtain r2 w2 where m2: "path_mkdir env (model_dir_of mt lang) True True w1 = (r2, w2)"
    by (cases "path_mkdir env (model_dir_of mt lang) True True w1")
  from assms m1 r1 m2 obtain u2 where r2: "r2 = Inr u2" by (cases r2) (auto simp: setup_model_def)
  have d1: "path_is_dir w1 data_dir" using path_mkdir_is_dir m1 r1 by blast
  have d2: "path_is_dir w2 (model_dir_of mt lang)" using path_mkdir_is_dir m2 r2 by blast
  from keeps_dirs_is_dir[OF frame_keeps_dirs[OF path_mkdir_frame[OF m2]] d1]
  have d1': "path_is_dir w2 data_dir" .
  have "keeps_dirs w2 w'"
  proof (cases "catalog_get mt lang")
    case None
    with assms m1 r1 m2 r2 show ?thesis by (auto simp: setup_model_def)
  next
    case (Some info)
    with assms m1 r1 m2 r2 have "setup_download env mt lang info w2 = (Inr ok, w')"
      by (simp add: setup_model_def)
    from setup_download_keeps_dirs[OF this] show ?thesis .
  qed
  with d1' d2 show ?thesis by (auto intro: keeps_dirs_is_dir)
qed

lemma frame_stat:
  assumes "frame w w'" and "stat w p = Some n"
  shows "stat w' p = Some n"
proof -
  from assms(2) obtain k where k: "\<not> has_nul p" "locate w p = Inr k" "map_of (fs w) k = Some n"
    by (auto simp: stat_def split: if_splits sum.splits)
  have "locate w' p = Inr k"
    by (rule locate_mono[OF _ _ k(2)]) (use assms(1) in \<open>auto simp: frame_def\<close>)
  moreover have "map_of (fs w') k = Some n" using assms(1) k(3) by (simp add: frame_def)
  ultimately show ?thesis using k(1) by (simp add: stat_def)
qed

lemma locate_print [simp]:
  "locate (print s w) p = locate w p" "locate (print_error s e w) p = locate w p"
  by (simp_all add: locate_def)

lemma stat_print [simp]:
  "stat (print s w) p = stat w p" "stat (print_error s e w) p = stat w p"
  by (auto simp: stat_def split: sum.splits)

lemma path_exists_print [simp]: "path_exists (print s w) p = path_exists w p"
  by (simp add: path_exists_def)

lemma setup_extract_quiet:
  assumes "stat w p = Some n"
  shows "net_log (snd (setup_extract env mt lang info w)) = net_log w
       \<and> stat (snd (setup_extract env mt lang info w)) p = Some n"
proof -
  obtain r1 w1 where m: "path_mkdir env (extract_dir_of mt lang) False True w = (r1, w1)"
    by (cases "path_mkdir env (extract_dir_of mt lang) False True w")
  note f = path_mkdir_frame[OF m]
  from frame_stat[OF f assms] frame_fields[OF f] m show ?thesis
    by (auto simp: setup_extract_eq split: sum.splits)
qed

section \<open>The metadata parameters\<close>

text \<open>
  C2. The \<open>parameters\<close> object of the descriptor depends on the model kind only:
  \<open>asr\<close> gives 16000 / \<open>fbank\<close> / \<open>transformer\<close> and \<open>tts\<close> gives 22050 / \<open>mel\<close> /
  \<open>tacotron2\<close>, whatever the language, the description and the URL are.
\<close>

theorem parameters_determined_by_model_kind:
  "cfg_parameters (make_config ''asr'' language download_info url) =
     \<lparr> sampling_rate = 16000, features = ''fbank'', model_architecture = ''transformer'' \<rparr>
   \<and> cfg_parameters (make_config ''tts'' language download_info url) =
     \<lparr> sampling_rate = 22050, features = ''mel'', model_architecture = ''tacotron2'' \<rparr>
   \<and> cfg_parameters (make_config model_type language download_info url) =
     cfg_parameters (make_config model_type language2 download_info2 url2)"
  by (simp add: make_config_def)

section \<open>Directory creation precedes the catalog lookup\<close>



section \<open>No run of \<open>setup_model\<close> succeeds\<close>


section \<open>The catalog lookup\<close>




section \<open>Archives with an unknown extension\<close>



section \<open>The download cache\<close>

text \<open>
  C3. When the destination file of the download exists, whatever the URL is, the
  fetch step of \<open>setup_model\<close> (lines 78-82) goes on to the extraction step exactly
  as after a download, with one line printed and the world otherwise untouched; to
  the end of the run no URL is requested and the cached file is what it was. Nothing
  looks at the size or the content of the file.
\<close>

theorem cached_archive_skips_fetch:
  assumes "path_exists w (download_path_of (info_url download_info))"
  shows "setup_download env model_type language download_info w =
           setup_extract env model_type language download_info
             (print (''Model file already exists: '' @
                     path_str (download_path_of (info_url download_info))) w)
       \<and> net_log (snd (setup_download env model_type language download_info w)) = net_log w
       \<and> stat (snd (setup_download env model_type language download_info w))
              (download_path_of (info_url download_info)) =
          stat w (download_path_of (info_url download_info))"
proof -
  let ?p = "download_path_of (info_url download_info)"
  let ?w = "print (''Model file already exists: '' @ path_str ?p) w"
  have eq: "setup_download env model_type language download_info w =
           setup_extract env model_type language download_info ?w"
    using assms by (simp add: setup_download_def Let_def)
  from assms obtain n where n: "stat w ?p = Some n" by (auto simp: path_exists_def)
  then have "stat ?w ?p = Some n" by simp
  from setup_extract_quiet[OF this, of env model_type language download_info] eq n
  show ?thesis by simp
qed

theorem cached_archive_skips_fetch_witness:
  "path_exists world_cached (download_path_of (info_url (the (catalog_get ''asr'' ''english''))))
   \<and> net_log (snd (setup_download env_ok ''asr'' ''english'' (the (catalog_get ''asr'' ''english''))
                    world_cached)) = []
   \<and> stat (snd (setup_download env_ok ''asr'' ''english'' (the (catalog_get ''asr'' ''english''))
                 world_cached))
          (download_path_of (info_url (the (catalog_get ''asr'' ''english'')))) =
      Some (File (Raw ''zip''))
   \<and> net_log (snd (setup_model env_ok ''asr'' ''english'' world_cached)) = []"
proof -
  have h: "path_exists world_cached (download_path_of (info_url (the (catalog_get ''asr'' ''english''))))"
    by code_simp
  have s: "stat world_cached (download_path_of (info_url (the (catalog_get ''asr'' ''english'')))) =
      Some (File (Raw ''zip''))" by code_simp
  have n: "net_log world_cached = []" by code_simp
  have m: "net_log (snd (setup_model env_ok ''asr'' ''english'' world_cached)) = []" by code_simp
  note t = cached_archive_skips_fetch[OF h, of env_ok "''asr''" "''english''"]
  from t have t1: "net_log (snd (setup_download env_ok ''asr'' ''english''
                    (the (catalog_get ''asr'' ''english'')) world_cached)) = net_log world_cached"
    by blast
  from t have t2: "stat (snd (setup_download env_ok ''asr'' ''english''
                    (the (catalog_get ''asr'' ''english'')) world_cached))
          (download_path_of (info_url (the (catalog_get ''asr'' ''english'')))) =
        stat world_cached (download_path_of (info_url (the (catalog_get ''asr'' ''english''))))"
    by blast
  from h t1[unfolded n] t2[unfolded s] m show ?thesis by blast
qed

section \<open>Which failures are caught\<close>




section \<open>The driver\<close>

text \<open>
  C8, as amended. \<open>main\<close> runs \<open>setup_model\<close> for \<open>(asr, english)\<close> and then for
  \<open>(tts, english)\<close>, and for no other pair. Whatever the first call returns, \<open>False\<close>
  included, the second call is made, on the world the first one left with its
  verdict line printed, and when \<open>main\<close> returns the model directories of both pairs
  exist. An exception that leaves the first call ends \<open>main\<close> there: the second pair
  is not attempted.
\<close>

theorem main_attempts_both_pairs:
  "(\<forall>ok_asr.
      fst (setup_model env ''asr'' ''english''
             (print ''Setting up English models for TalkGhana...'' w)) = Inr ok_asr \<longrightarrow>
      main env w =
        (case setup_model env ''tts'' ''english''
                (print (if ok_asr then ''English ASR model setup successful!''
                        else ''English ASR model setup failed!'')
                   (snd (setup_model env ''asr'' ''english''
                           (print ''Setting up English models for TalkGhana...'' w)))) of
           (Inl e, w3) \<Rightarrow> (Inl e, w3)
         | (Inr ok_tts, w3) \<Rightarrow>
             (Inr (),
              print (''For Ghanaian languages, you'' @ [CHR 0x27] @
                     ''ll need to train custom models or use the placeholders.'')
                (print ''Note: These are pre-trained models for English only.''
                   (print (CHR 0x0A # ''Model download and setup complete!'')
                      (print (if ok_tts then ''English TTS model setup successful!''
                              else ''English TTS model setup failed!'') w3))))))
   \<and> (fst (main env w) = Inr () \<longrightarrow>
        path_is_dir (snd (main env w)) (model_dir_of ''asr'' ''english'')
        \<and> path_is_dir (snd (main env w)) (model_dir_of ''tts'' ''english''))
   \<and> (\<forall>e.
        fst (setup_model env ''asr'' ''english''
               (print ''Setting up English models for TalkGhana...'' w)) = Inl e \<longrightarrow>
        main env w =
          (Inl e, snd (setup_model env ''asr'' ''english''
                         (print ''Setting up English models for TalkGhana...'' w))))"
proof (intro conjI allI impI)
  let ?w0 = "print ''Setting up English models for TalkGhana...'' w"
  fix ok_asr
  assume "fst (setup_model env ''asr'' ''english'' ?w0) = Inr ok_asr"
  then obtain w1 where r1: "setup_model env ''asr'' ''english'' ?w0 = (Inr ok_asr, w1)"
    by (cases "setup_model env ''asr'' ''english'' ?w0") auto
  then show "main env w =
        (case setup_model env ''tts'' ''english''
                (print (if ok_asr then ''English ASR model setup successful!''
                        else ''English ASR model setup failed!'')
                   (snd (setup_model env ''asr'' ''english'' ?w0))) of
           (Inl e, w3) \<Rightarrow> (Inl e, w3)
         | (Inr ok_tts, w3) \<Rightarrow>
             (Inr (),
              print (''For Ghanaian languages, you'' @ [CHR 0x27] @
                     ''ll need to train custom models or use the placeholders.'')
                (print ''Note: These are pre-trained models for English only.''
                   (print (CHR 0x0A # ''Model download and setup complete!'')
                      (print (if ok_tts then ''English TTS model setup successful!''
                              else ''English TTS model setup failed!'') w3)))))"
    by (simp add: main_def Let_def split: prod.splits sum.splits)
next
  let ?w0 = "print ''Setting up English models for TalkGhana...'' w"
  assume ok: "fst (main env w) = Inr ()"
  obtain r1 w1 where r1: "setup_model env ''asr'' ''english'' ?w0 = (r1, w1)"
    by (cases "setup_model env ''asr'' ''english'' ?w0")
  from ok r1 obtain ok_asr where a: "r1 = Inr ok_asr"
    by (cases r1) (auto simp: main_def Let_def)
  let ?w2 = "print (if ok_asr then ''English ASR model setup successful!''
                    else ''English ASR model setup failed!'') w1"
  obtain r2 w3 where r2: "setup_model env ''tts'' ''english'' ?w2 = (r2, w3)"
    by (cases "setup_model env ''tts'' ''english'' ?w2")
  from ok r1 a r2 obtain ok_tts where t: "r2 = Inr ok_tts"
    by (cases r2) (auto simp: main_def Let_def)
  let ?w4 = "print (''For Ghanaian languages, you'' @ [CHR 0x27] @
                    ''ll need to train custom models or use the placeholders.'')
               (print ''Note: These are pre-trained models for English only.''
                  (print (CHR 0x0A # ''Model download and setup complete!'')
                     (print (if ok_tts then ''English TTS model setup successful!''
                             else ''English TTS model setup failed!'') w3)))"
  from r1 a r2 t have fin: "snd (main env w) = ?w4"
    by (simp add: main_def Let_def)
  have k: "keeps_dirs w3 ?w4" by simp
  from setup_model_dirs[OF r1[unfolded a]]
  have a1: "path_is_dir w1 (model_dir_of ''asr'' ''english'')" by simp
  have "keeps_dirs w1 w3" using setup_model_keeps_dirs[OF r2] by simp
  from keeps_dirs_is_dir[OF this a1]
  have a3: "path_is_dir w3 (model_dir_of ''asr'' ''english'')" .
  from setup_model_dirs[OF r2[unfolded t]]
  have t3: "path_is_dir w3 (model_dir_of ''tts'' ''english'')" by simp
  from keeps_dirs_is_dir[OF k a3] fin
  show "path_is_dir (snd (main env w)) (model_dir_of ''asr'' ''english'')" by simp
  from keeps_dirs_is_dir[OF k t3] fin
  show "path_is_dir (snd (main env w)) (model_dir_of ''tts'' ''english'')" by simp
next
  let ?w0 = "print ''Setting up English models for TalkGhana...'' w"
  fix e
  assume "fst (setup_model env ''asr'' ''english'' ?w0) = Inl e"
  then show "main env w = (Inl e, snd (setup_model env ''asr'' ''english'' ?w0))"
    by (cases "setup_model env ''asr'' ''english'' ?w0") (simp add: main_def Let_def)
qed

theorem main_attempts_both_pairs_witness:
  "fst (setup_model env_offline ''asr'' ''english''
          (print ''Setting up English models for TalkGhana...'' world_empty)) = Inr False
   \<and> fst (main env_offline world_empty) = Inr ()
   \<and> path_is_dir (snd (main env_offline world_empty)) (model_dir_of ''asr'' ''english'')
   \<and> path_is_dir (snd (main env_offline world_empty)) (model_dir_of ''tts'' ''english'')
   \<and> net_log (snd (main env_offline world_empty)) =
       [''https://zenodo.org/record/3966501/files/asr_train_asr_transformer_e18_raw_bpe_sp_valid.acc.ave.zip'',
        ''https://zenodo.org/record/4034069/files/tts_train_xvector_tacotron2_raw_phn_tacotron_g2p_en_no_space_train.loss.ave.zip'']
   \<and> fst (setup_model env_ok ''asr'' ''english''
          (print ''Setting up English models for TalkGhana...'' world_data_is_file)) =
       Inl NotADirectoryError
   \<and> fst (main env_ok world_data_is_file) = Inl NotADirectoryError"
proof -
  have h: "fst (setup_model env_offline ''asr'' ''english''
          (print ''Setting up English models for TalkGhana...'' world_empty)) = Inr False"
    by code_simp
  have m: "fst (main env_offline world_empty) = Inr ()" by code_simp
  have n: "net_log (snd (main env_offline world_empty)) =
       [''https://zenodo.org/record/3966501/files/asr_train_asr_transformer_e18_raw_bpe_sp_valid.acc.ave.zip'',
        ''https://zenodo.org/record/4034069/files/tts_train_xvector_tacotron2_raw_phn_tacotron_g2p_en_no_space_train.loss.ave.zip'']"
    by code_simp
  have x: "fst (setup_model env_ok ''asr'' ''english''
          (print ''Setting up English models for TalkGhana...'' world_data_is_file)) =
       Inl NotADirectoryError"
    by code_simp
  from main_attempts_both_pairs[of env_offline world_empty] m
  have d: "path_is_dir (snd (main env_offline world_empty)) (model_dir_of ''asr'' ''english'')
        \<and> path_is_dir (snd (main env_offline world_empty)) (model_dir_of ''tts'' ''english'')"
    by blast
  from main_attempts_both_pairs[of env_ok world_data_is_file] x
  have "main env_ok world_data_is_file =
          (Inl NotADirectoryError,
           snd (setup_model env_ok ''asr'' ''english''
                  (print ''Setting up English models for TalkGhana...'' world_data_is_file)))"
    by blast
  then have y: "fst (main env_ok world_data_is_file) = Inl NotADirectoryError" by simp
  from h m n x d y show ?thesis by blast
qed

text \<open>
  C8 as stated fails: with a regular file at \<open>backend/src/espnet/models/asr\<close> the first
  pair's directory creation raises, \<open>main\<close> ends with that exception, and nothing is
  done for the second pair (no directory, no request), although \<open>setup_model\<close> for
  \<open>(tts, english)\<close> runs in that very world.
\<close>

theorem first_pair_exception_skips_second_counterexample:
  "fst (main env_ok world_asr_is_file) = Inl NotADirectoryError
   \<and> \<not> path_exists (snd (main env_ok world_asr_is_file)) (model_dir_of ''tts'' ''english'')
   \<and> net_log (snd (main env_ok world_asr_is_file)) = []
   \<and> fst (setup_model env_ok ''tts'' ''english'' world_asr_is_file) = Inr False
   \<and> path_is_dir (snd (setup_model env_ok ''tts'' ''english'' world_asr_is_file))
        (model_dir_of ''tts'' ''english'')
   \<and> net_log (snd (setup_model env_ok ''tts'' ''english'' world_asr_is_file)) =
       [''https://zenodo.org/record/4034069/files/tts_train_xvector_tacotron2_raw_phn_tacotron_g2p_en_no_space_train.loss.ave.zip'']"
  by code_simp

section \<open>Extraction called with a \<open>Path\<close>\<close>

text \<open>
  C4. The download cache holds the ASR archive, \<open>unzip\<close> works, and the archive's
  members are \<open>config.yaml\<close>, \<open>model.pth\<close> and \<open>irrelevant.txt\<close>. \<open>setup_model\<close> returns
  \<open>False\<close>: \<open>extract_file\<close> is given a \<open>Path\<close>, \<open>endswith\<close> raises \<open>AttributeError\<close>,
  and nothing is extracted, copied or written. The destination directory exists and
  is empty.
\<close>

theorem three_file_archive_is_not_installed:
  "fst (setup_model env_ok ''asr'' ''english'' world_cached) = Inr False
   \<and> path_is_dir (snd (setup_model env_ok ''asr'' ''english'' world_cached))
        (model_dir_of ''asr'' ''english'')
   \<and> glob_all (snd (setup_model env_ok ''asr'' ''english'' world_cached))
        (model_dir_of ''asr'' ''english'') = []
   \<and> glob_all (snd (setup_model env_ok ''asr'' ''english'' world_cached))
        (extract_dir_of ''asr'' ''english'') = []
   \<and> stdout (snd (setup_model env_ok ''asr'' ''english'' world_cached)) =
       [Line ''Model file already exists: data/models/asr_train_asr_transformer_e18_raw_bpe_sp_valid.acc.ave.zip'',
        Line ''Extracting data/models/asr_train_asr_transformer_e18_raw_bpe_sp_valid.acc.ave.zip to data/models/asr_english_tmp...'',
        ErrorLine ''Error extracting file: '' AttributeError]"
  by code_simp

text \<open>
  Called with the same path as a string, \<open>extract_file\<close> succeeds, and the rest of
  \<open>setup_model\<close> (lines 91-117) then leaves exactly \<open>config.yaml\<close>, \<open>model.pth\<close> and
  \<open>config.json\<close> in the destination directory.
\<close>

lemma install_after_extraction_of_three_file_archive:
  "fst (setup_install env_ok ''asr'' ''english'' (the (catalog_get ''asr'' ''english''))
         (snd (extract_file env_ok
                 (PStr (path_str (download_path_of (info_url (the (catalog_get ''asr'' ''english''))))))
                 (PStr (path_str (extract_dir_of ''asr'' ''english'')))
                 (snd (setup_model env_ok ''asr'' ''english'' world_cached))))) = Inr True
   \<and> map path_name
        (glob_all
          (snd (setup_install env_ok ''asr'' ''english'' (the (catalog_get ''asr'' ''english''))
            (snd (extract_file env_ok
                 (PStr (path_str (download_path_of (info_url (the (catalog_get ''asr'' ''english''))))))
                 (PStr (path_str (extract_dir_of ''asr'' ''english'')))
                 (snd (setup_model env_ok ''asr'' ''english'' world_cached))))))
          (model_dir_of ''asr'' ''english'')) =
       [''config.yaml'', ''model.pth'', ''config.json'']"
  by code_simp


section \<open>The installation and metadata steps on their own\<close>

text \<open>
  The steps that the failed extraction keeps \<open>setup_model\<close> from reaching (lines
  91-117), started in any world: when no entry of the scratch tree has a name on the
  allow-list nothing is copied and no error is raised, and \<open>config.json\<close> is written
  and \<open>True\<close> returned unless opening the file raises; whenever the steps return,
  the descriptor in the model directory of \<open>(model_type, language)\<close> carries that
  model type and that language. For the two catalog pairs these are the last two
  segments of the directory.
\<close>

lemma copy_matching_no_match:
  "list_all (\<lambda>file. path_name file \<notin> set [''model.json'', ''config.yaml'', ''train.yaml'', ''model.pth'']) files
   \<Longrightarrow> copy_matching env files model_dir w = (Inr (), w)"
  by (induction files) simp_all

lemma install_without_matches:
  assumes "list_all (\<lambda>file. path_name file \<notin> set [''model.json'', ''config.yaml'', ''train.yaml'', ''model.pth''])
             (glob_all w (extract_dir_of model_type language))"
  shows "setup_install env model_type language download_info w =
     (case open_write env (joinpath (model_dir_of model_type language) ''config.json'') w of
        (Inl e, w2) \<Rightarrow> (Inl e, w2)
      | (Inr k, w2) \<Rightarrow>
          (Inr True,
           print (capitalize language @ '' '' @ upper model_type @ '' model setup complete!'')
             (write_content k
                (ConfigJson (make_config model_type language download_info (info_url download_info)))
                w2)))"
  using copy_matching_no_match[OF assms]
  by (simp add: setup_install_def Let_def)

lemma open_write_ok:
  "open_write env p w = (Inr k, w1) \<Longrightarrow>
     \<not> has_nul p \<and> locate w p = Inr k \<and> map_of (fs w) k \<noteq> Some Dir \<and>
     w1 = w \<lparr> fs := AList.update k (File (Raw [])) (fs w) \<rparr>"
  by (auto simp: open_write_def split: if_splits option.splits sum.splits node.splits)

lemma descriptor_matches_directory:
  assumes "setup_install env model_type language download_info w = (Inr ok, w')"
  shows "ok \<and> (\<exists>c. stat w' (joinpath (model_dir_of model_type language) ''config.json'') =
                  Some (File (ConfigJson c)) \<and>
               cfg_model_type c = model_type \<and> cfg_language c = language)"
proof -
  let ?p = "joinpath (model_dir_of model_type language) ''config.json''"
  let ?c = "make_config model_type language download_info (info_url download_info)"
  obtain r1 w1 where cm: "copy_matching env (glob_all w (extract_dir_of model_type language))
                            (model_dir_of model_type language) w = (r1, w1)"
    by (cases "copy_matching env (glob_all w (extract_dir_of model_type language))
                            (model_dir_of model_type language) w")
  from assms cm obtain u where r1: "r1 = Inr u"
    by (cases r1) (auto simp: setup_install_def Let_def)
  obtain r2 w2 where ow: "open_write env ?p w1 = (r2, w2)"
    by (cases "open_write env ?p w1")
  from assms cm r1 ow obtain k where r2: "r2 = Inr k"
    by (cases r2) (auto simp: setup_install_def Let_def)
  from assms cm r1 ow r2 have fin: "ok"
    "w' = print (capitalize language @ '' '' @ upper model_type @ '' model setup complete!'')
            (write_content k (ConfigJson ?c) w2)"
    by (auto simp: setup_install_def Let_def)
  from open_write_ok[OF ow[unfolded r2]] have k: "\<not> has_nul ?p" "locate w1 ?p = Inr k"
    "map_of (fs w1) k \<noteq> Some Dir" "w2 = w1 \<lparr> fs := AList.update k (File (Raw [])) (fs w1) \<rparr>"
    by auto
  have "locate w' ?p = Inr k"
  proof (rule locate_mono[OF _ _ k(2)])
    fix q assume "map_of (fs w1) q = Some Dir"
    with k(3,4) fin(2) show "map_of (fs w') q = Some Dir"
      by (auto simp: write_content_def update_conv')
  next
    show "cwd w' = cwd w1" using k(4) fin(2) by (simp add: write_content_def)
  qed
  moreover have "map_of (fs w') k = Some (File (ConfigJson ?c))"
    using fin(2) by (simp add: write_content_def update_conv')
  ultimately have "stat w' ?p = Some (File (ConfigJson ?c))"
    using k(1) by (simp add: stat_def)
  moreover have "cfg_model_type ?c = model_type \<and> cfg_language ?c = language"
    by (simp add: make_config_def)
  ultimately show ?thesis using fin(1) by blast
qed

lemma model_dir_segments:
  "parts (model_dir_of ''asr'' ''english'') =
     [''backend'', ''src'', ''espnet'', ''models'', ''asr'', ''english'']
   \<and> parts (model_dir_of ''tts'' ''english'') =
     [''backend'', ''src'', ''espnet'', ''models'', ''tts'', ''english'']"
  by code_simp

end
